theory Spec2Isabelle
  imports Main
begin

section \<open>The Python runtime as far as chatoutput.py uses it\<close>

text \<open>
  An exception is known by its class and its message: \<open>ValueError\<close>, \<open>TypeError\<close> and
  \<open>AttributeError\<close> are the classes the code itself meets, \<open>OtherError\<close> is any other
  subclass of \<open>Exception\<close>. Nothing tells an exception of \<open>_validate_input\<close> from one
  of the same class that foreign code raises. An \<open>except Exception\<close> clause catches each
  of them.
\<close>

datatype exn =
    ValueError string
  | TypeError string
  | AttributeError string
  | OtherError string

text \<open>
  A call into foreign code (the \<open>__eq__\<close>, \<open>__bool__\<close>, \<open>__str__\<close> or \<open>__repr__\<close> of an
  object, a pandas method, \<open>send_message\<close>) either returns or raises an exception of
  whatever class.
\<close>

datatype 'a outcome = Returns 'a | Raises exn

fun propagate :: "'a outcome \<Rightarrow> exn + 'a" where
  "propagate (Returns x) = Inr x"
| "propagate (Raises e) = Inl e"

text \<open>
  A string is a list of characters with the code points 0 to 255.
  \<open>str.strip()\<close> without argument removes the characters for which \<open>str.isspace\<close>
  holds from both ends. Among these code points they are TAB, LF, VT, FF, CR, FS, GS,
  RS, US, SPACE, NEL and NBSP.
\<close>

definition is_space :: "char \<Rightarrow> bool" where
  "is_space c = (of_char c \<in> set [9, 10, 11, 12, 13, 28, 29, 30, 31, 32, 133, 160 :: nat])"

definition strip :: "string \<Rightarrow> string" where
  "strip s = rev (dropWhile is_space (rev (dropWhile is_space s)))"

definition nl :: string where
  "nl = [CHR 0x0A]"

text \<open>\<open>sep.join(xs)\<close>.\<close>

fun join :: "string \<Rightarrow> string list \<Rightarrow> string" where
  "join sep [] = []"
| "join sep [x] = x"
| "join sep (x # y # ys) = x @ sep @ join sep (y # ys)"

text \<open>
  A value met inside a payload. \<open>None\<close> and \<open>str\<close> are the two classes the code tells
  apart by itself; any other object is described by what the four operations the code
  applies to it give: the truth of \<open>v == ""\<close> (the object's \<open>__eq__\<close> and the truth test
  of its result), \<open>isinstance(v, (dict, list))\<close>, \<open>str(v)\<close> and \<open>repr(v)\<close>. All but the
  \<open>isinstance\<close> test are foreign calls.
\<close>

record pyobj =
  eq_empty :: "bool outcome"
  is_dict_or_list :: bool
  obj_str :: "string outcome"
  obj_repr :: "string outcome"

datatype pyval = PNone | PStr string | PObj pyobj

fun py_str :: "pyval \<Rightarrow> string outcome" where
  "py_str PNone = Returns ''None''"
| "py_str (PStr s) = Returns s"
| "py_str (PObj ob) = obj_str ob"

section \<open>The classes of the input\<close>

text \<open>
  A \<open>Data\<close> object, as \<open>_serialize_data\<close> observes it: \<open>value_attr\<close> is \<open>None\<close> when
  \<open>hasattr(data, "value")\<close> is false and the attribute's value otherwise;
  \<open>data_attr\<close> is \<open>Dict kvs\<close> when \<open>getattr(data, "data", None)\<close> is a dict with the
  items \<open>kvs\<close> in iteration order, and \<open>NotADict\<close> when the attribute is missing or
  anything else; \<open>data_str\<close> is what \<open>str(data)\<close> gives.
\<close>

datatype payload = NotADict | Dict "(string \<times> pyval) list"

record data =
  value_attr :: "pyval option"
  data_attr :: payload
  data_str :: "string outcome"

text \<open>
  A tabular handle (a pandas object): its truth test, \<open>head(n).to_string()\<close> for each
  \<open>n\<close>, and \<open>str\<close> of it, all foreign calls.
\<close>

record handle =
  truthy :: "bool outcome"
  head_to_string :: "nat \<Rightarrow> string outcome"
  handle_str :: "string outcome"

text \<open>
  Modelled from the spec: pandas is not part of the source, and \<open>head()\<close> is called
  without argument; the preview count is the fixed small count the spec gives, 5.
\<close>

definition head_default :: nat where
  "head_default = 5"

text \<open>
  A \<open>DataFrame\<close> input: the attributes \<open>df\<close> and \<open>value\<close> (\<open>None\<close> when
  \<open>getattr(..., None)\<close> gives \<open>None\<close>) and \<open>str\<close> of the frame.
\<close>

record dataframe =
  frame_df :: "handle option"
  frame_value :: "handle option"
  frame_str :: "string outcome"

text \<open>A generator is taken as the chunks it has yet to yield; the code never draws one.\<close>

type_synonym generator = "string list"

text \<open>Messages live in a store and are known by their address.\<close>

type_synonym ref = nat

text \<open>
  Modelled from the spec: the classes \<open>Message\<close>, \<open>Data\<close> and \<open>DataFrame\<close> are imported
  from langflow and their declarations are not part of the source. The spec's data
  model makes the input a closed variant with exactly one variant active per value, so
  the \<open>isinstance\<close> tests of the code are the constructor tests below. \<open>IOther t\<close> is an
  object of any other class, \<open>t\<close> being \<open>type(x).__name__\<close>.
\<close>

datatype input_value =
    INone
  | IStr string
  | IList "input_value list"
  | IGenerator generator
  | IData data
  | IMessage ref
  | IDataFrame dataframe
  | IOther string

text \<open>What \<open>convert_to_string\<close> returns and what a message's \<open>text\<close> holds.\<close>

datatype text_value = NoText | Text string | Stream generator

section \<open>The component\<close>

text \<open>
  The fields of \<open>self\<close> that the methods read. \<open>graph\<close> is \<open>None\<close> when
  \<open>hasattr(self, "graph")\<close> is false and \<open>Some (self.graph.flow_id)\<close> otherwise.
\<close>

record component =
  input_value :: input_value
  should_store_message :: bool
  sender :: string
  sender_name :: string
  session_id :: string
  data_template :: string
  background_color :: string
  chat_icon :: string
  text_color :: string
  clean_data :: bool
  graph :: "string option option"

text \<open>
  Modelled from the spec: \<open>Source\<close> is imported from langflow. All three fields are
  optional, and a key absent from the keyword arguments leaves its field absent.
\<close>

record Source =
  id_field :: "string option"
  display_name :: "string option"
  source :: "string option"

definition mk_Source :: "(string \<rightharpoonup> string) \<Rightarrow> Source" where
  "mk_Source d = \<lparr>id_field = d ''id'', display_name = d ''display_name'', source = d ''source''\<rparr>"

record properties =
  source :: Source
  icon :: "string option"
  background_color :: string
  text_color :: string

text \<open>
  A \<open>Message\<close>: the fields the code assigns, and \<open>other_fields\<close> for every field of the
  class that it does not mention.
\<close>

record message =
  msg_text :: text_value
  sender :: "string option"
  sender_name :: "string option"
  session_id :: "string option"
  flow_id :: "string option"
  properties :: properties
  other_fields :: "(string \<times> pyval) list"

text \<open>
  The store: \<open>heap\<close> gives the object at each address, and the addresses from
  \<open>next_ref\<close> on are free.
\<close>

record memory =
  heap :: "ref \<Rightarrow> message"
  next_ref :: ref

section \<open>\<open>_serialize_data\<close>\<close>

text \<open>
  The methods keep their names, without the leading underscore. Line numbers are those
  of \<open>chatoutput.py\<close>.

  Lines 166 to 172: the text of one payload value. A dict or list gets \<open>str\<close> inside
  \<open>try\<close> with \<open>repr\<close> in the handler; anything else gets a bare \<open>str\<close>.
\<close>

fun stringify :: "pyval \<Rightarrow> string outcome" where
  "stringify (PObj ob) =
     (if is_dict_or_list ob
      then (case obj_str ob of Returns s \<Rightarrow> Returns s | Raises e \<Rightarrow> obj_repr ob)
      else obj_str ob)"
| "stringify v = py_str v"

text \<open>
  Line 164, \<open>v is None or v == ""\<close>: the identity test comes first, and for an object
  that is neither \<open>None\<close> nor a string the comparison is the object's own.
\<close>

fun skip_test :: "pyval \<Rightarrow> bool outcome" where
  "skip_test PNone = Returns True"
| "skip_test (PStr s) = Returns (s = [])"
| "skip_test (PObj ob) = eq_empty ob"

text \<open>The loop of lines 163 to 173, \<open>lines\<close> being the list built so far.\<close>

fun payload_lines :: "(string \<times> pyval) list \<Rightarrow> string list \<Rightarrow> string list outcome" where
  "payload_lines [] lines = Returns lines"
| "payload_lines ((k, v) # kvs) lines =
     (case skip_test v of
        Raises e \<Rightarrow> Raises e
      | Returns True \<Rightarrow> payload_lines kvs lines
      | Returns False \<Rightarrow>
          (case stringify v of
             Raises e \<Rightarrow> Raises e
           | Returns v_str \<Rightarrow> payload_lines kvs (lines @ [k @ '': '' @ v_str])))"

definition serialize_data :: "data \<Rightarrow> exn + string" where
  "serialize_data d =
     (case value_attr d of
        Some (PStr s) \<Rightarrow> Inr (strip s)
      | _ \<Rightarrow>
        (case data_attr d of
           Dict kvs \<Rightarrow>
             (case payload_lines kvs [] of
                Raises e \<Rightarrow> Inl e
              | Returns lines \<Rightarrow> Inr (if lines \<noteq> [] then strip (join nl lines) else []))
         | NotADict \<Rightarrow>
             (case data_str d of
                Returns s \<Rightarrow> Inr (strip s)
              | Raises e \<Rightarrow> Inr [])))"

section \<open>\<open>_validate_input\<close> and \<open>convert_to_string\<close>\<close>

fun is_valid_type :: "input_value \<Rightarrow> bool" where
  "is_valid_type (IOther t) = False"
| "is_valid_type v = True"

fun type_name :: "input_value \<Rightarrow> string" where
  "type_name INone = ''NoneType''"
| "type_name (IStr s) = ''str''"
| "type_name (IList xs) = ''list''"
| "type_name (IGenerator g) = ''generator''"
| "type_name (IData d) = ''Data''"
| "type_name (IMessage r) = ''Message''"
| "type_name (IDataFrame f) = ''DataFrame''"
| "type_name (IOther t) = t"

definition validate_input :: "component \<Rightarrow> exn + unit" where
  "validate_input self =
     (if input_value self = INone then Inl (ValueError ''Input data cannot be None'')
      else if \<not> is_valid_type (input_value self)
      then Inl (TypeError (''Expected Data, DataFrame, Message, str, list, Generator or None, got ''
                            @ type_name (input_value self)))
      else Inr ())"

text \<open>
  \<open>safe_convert\<close> is imported from langflow; it is a parameter here, of the shape the
  spec gives the item conversion: a string or \<open>None\<close> from an item and the clean flag.
\<close>

type_synonym converter = "input_value \<Rightarrow> bool \<Rightarrow> string option"

text \<open>The loop of lines 196 and 197.\<close>

fun collect_parts :: "converter \<Rightarrow> bool \<Rightarrow> input_value list \<Rightarrow> string option list
    \<Rightarrow> string option list" where
  "collect_parts conv c [] parts = parts"
| "collect_parts conv c (item # items) parts = collect_parts conv c items (parts @ [conv item c])"

text \<open>The generator expression of line 198: \<open>p.strip() for p in parts if p is not None\<close>.\<close>

fun stripped_parts :: "string option list \<Rightarrow> string list" where
  "stripped_parts [] = []"
| "stripped_parts (None # ps) = stripped_parts ps"
| "stripped_parts (Some p # ps) = strip p # stripped_parts ps"

text \<open>
  Line 210, \<open>a or b\<close> on two attribute values: \<open>None\<close> is false, any other \<open>a\<close> is
  asked for its truth, and \<open>b\<close> is taken as it is.
\<close>

definition or_else :: "handle option \<Rightarrow> handle option \<Rightarrow> handle option outcome" where
  "or_else a b =
     (case a of
        None \<Rightarrow> Returns b
      | Some h \<Rightarrow>
          (case truthy h of
             Raises e \<Rightarrow> Raises e
           | Returns True \<Rightarrow> Returns (Some h)
           | Returns False \<Rightarrow> Returns b))"

text \<open>
  Line 207, \<open>(text or "").strip()\<close>; a generator is true and has no \<open>strip\<close>, and
  the \<open>AttributeError\<close> carries the name of the missing attribute.
\<close>

fun message_text :: "text_value \<Rightarrow> exn + string" where
  "message_text NoText = Inr (strip [])"
| "message_text (Text s) = Inr (strip (if s \<noteq> [] then s else []))"
| "message_text (Stream g) = Inl (AttributeError ''strip'')"

definition render_frame :: "dataframe \<Rightarrow> exn + string" where
  "render_frame f =
     (case or_else (frame_df f) (frame_value f) of
        Raises e \<Rightarrow> Inl e
      | Returns (Some df_obj) \<Rightarrow>
          (case head_to_string df_obj head_default of
             Returns s \<Rightarrow> Inr s
           | Raises e \<Rightarrow> propagate (handle_str df_obj))
      | Returns None \<Rightarrow> propagate (frame_str f))"

definition lift_text :: "exn + string \<Rightarrow> exn + text_value" where
  "lift_text r = (case r of Inl e \<Rightarrow> Inl e | Inr s \<Rightarrow> Inr (Text s))"

definition convert_to_string :: "converter \<Rightarrow> memory \<Rightarrow> component \<Rightarrow> exn + text_value" where
  "convert_to_string conv m self =
     (case validate_input self of
        Inl e \<Rightarrow> Inl e
      | Inr u \<Rightarrow>
        (case input_value self of
           IList items \<Rightarrow>
             Inr (Text (join nl (stripped_parts (collect_parts conv (clean_data self) items []))))
         | IGenerator g \<Rightarrow> Inr (Stream g)
         | IData d \<Rightarrow> lift_text (serialize_data d)
         | IMessage r \<Rightarrow> lift_text (message_text (msg_text (heap m r)))
         | IDataFrame f \<Rightarrow> lift_text (render_frame f)
         | IStr s \<Rightarrow> Inr (Text (strip s))
         | v \<Rightarrow> (case conv v (clean_data self) of None \<Rightarrow> Inr NoText | Some s \<Rightarrow> Inr (Text s))))"

section \<open>\<open>_build_source\<close>\<close>

text \<open>
  The argument \<open>source\<close>: \<open>None\<close>, a string, or a model object, of which the code reads
  its truth (what \<open>__bool__\<close> or \<open>__len__\<close> of the object says), the attribute
  \<open>model_name\<close> (absent when \<open>hasattr\<close> is false), \<open>str\<close> of the attribute \<open>model\<close>
  (likewise) and \<open>str\<close> of the object. These reads are taken to return.
\<close>

datatype source_arg =
    SrcNone
  | SrcStr string
  | SrcObj (obj_true: bool) (model_name: "string option") (model: "string option")
      (obj_text: string)

text \<open>Line 114, \<open>if source\<close>: \<open>None\<close> and the empty string are false, an object answers
  for itself.\<close>

fun source_truthy :: "source_arg \<Rightarrow> bool" where
  "source_truthy SrcNone = False"
| "source_truthy (SrcStr s) = (s \<noteq> [])"
| "source_truthy (SrcObj b mn mo t) = b"

fun str_truthy :: "string option \<Rightarrow> bool" where
  "str_truthy None = False"
| "str_truthy (Some s) = (s \<noteq> [])"

text \<open>Lines 115 to 120.\<close>

fun source_label :: "source_arg \<Rightarrow> string" where
  "source_label (SrcObj b (Some mn) mo t) = mn"
| "source_label (SrcObj b None (Some mo) t) = mo"
| "source_label (SrcObj b None None t) = t"
| "source_label (SrcStr s) = s"
| "source_label SrcNone = ''None''"

text \<open>Lines 109 to 120: the dict handed to \<open>Source\<close>.\<close>

definition source_dict :: "string option \<Rightarrow> string option \<Rightarrow> source_arg \<Rightarrow> (string \<rightharpoonup> string)" where
  "source_dict id_arg display_name_arg src =
     (let d0 = Map.empty;
          d1 = (if str_truthy id_arg then d0(''id'' \<mapsto> the id_arg) else d0);
          d2 = (if str_truthy display_name_arg
                then d1(''display_name'' \<mapsto> the display_name_arg) else d1);
          d3 = (if source_truthy src then d2(''source'' \<mapsto> source_label src) else d2)
      in d3)"

definition build_source :: "string option \<Rightarrow> string option \<Rightarrow> source_arg \<Rightarrow> Source" where
  "build_source id_arg display_name_arg src = mk_Source (source_dict id_arg display_name_arg src)"

section \<open>\<open>message_response\<close>\<close>

text \<open>
  Modelled from the spec: the constructor of \<open>Message\<close> is not part of the source. A
  fresh message has the text it is given and nothing else set; every other field the
  model names is assigned by \<open>message_response\<close> before the message is used.
\<close>

definition new_Message :: "text_value \<Rightarrow> message" where
  "new_Message t = \<lparr>msg_text = t, sender = None, sender_name = None, session_id = None,
     flow_id = None,
     properties = \<lparr>source = mk_Source Map.empty, icon = None, background_color = [], text_color = []\<rparr>,
     other_fields = []\<rparr>"

definition alloc :: "message \<Rightarrow> memory \<Rightarrow> ref \<times> memory" where
  "alloc x m = (next_ref m, m\<lparr>heap := (heap m)(next_ref m := x), next_ref := Suc (next_ref m)\<rparr>)"

text \<open>An assignment to an attribute of the object at \<open>r\<close>.\<close>

definition assign :: "ref \<Rightarrow> (message \<Rightarrow> message) \<Rightarrow> memory \<Rightarrow> memory" where
  "assign r f m = m\<lparr>heap := (heap m)(r := f (heap m r))\<rparr>"

text \<open>
  What the call changes besides the store: \<open>sent\<close> lists the messages handed to
  \<open>send_message\<close>, one entry per call, and \<open>message_value\<close> and \<open>status\<close> are
  \<open>self.message.value\<close> and \<open>self.status\<close>.
\<close>

record world =
  mem :: memory
  sent :: "ref list"
  message_value :: "ref option"
  status :: "ref option"

text \<open>
  \<open>send_message\<close> and \<open>get_properties_from_source_component\<close> belong to the base
  class, which is imported; they are parameters. The first is a foreign call on a
  message and the store, and gives the stored message and the store after the call; the
  second is taken by its result \<open>(source, icon, display_name, source_id)\<close>.
\<close>

type_synonym sender_fn = "ref \<Rightarrow> memory \<Rightarrow> ref outcome \<times> memory"

type_synonym source_props = "source_arg \<times> string option \<times> string option \<times> string option"

text \<open>Lines 132 to 136.\<close>

definition working_message :: "input_value \<Rightarrow> text_value \<Rightarrow> memory \<Rightarrow> ref \<times> memory" where
  "working_message inp t m =
     (case inp of
        IMessage r \<Rightarrow> (r, assign r (\<lambda>x. x\<lparr>msg_text := t\<rparr>) m)
      | _ \<Rightarrow> alloc (new_Message t) m)"

text \<open>Lines 126 to 145: the message before it is stored, and the store holding it.\<close>

definition prepare :: "source_props \<Rightarrow> component \<Rightarrow> text_value \<Rightarrow> memory \<Rightarrow> ref \<times> memory" where
  "prepare props self t m =
     (case props of (src, icon0, display_name0, source_id) \<Rightarrow>
        let background_color0 = component.background_color self;
            text_color0 = component.text_color self;
            icon1 = (if chat_icon self \<noteq> [] then Some (chat_icon self) else icon0);
            (r, m1) = working_message (input_value self) t m;
            m2 = assign r (\<lambda>x. x\<lparr>sender := Some (component.sender self)\<rparr>) m1;
            m3 = assign r (\<lambda>x. x\<lparr>sender_name := Some (component.sender_name self)\<rparr>) m2;
            m4 = assign r (\<lambda>x. x\<lparr>session_id := Some (component.session_id self)\<rparr>) m3;
            m5 = assign r (\<lambda>x. x\<lparr>flow_id := (case graph self of Some fid \<Rightarrow> fid | None \<Rightarrow> None)\<rparr>) m4;
            m6 = assign r (\<lambda>x. x\<lparr>properties := (properties x)\<lparr>source := build_source source_id display_name0 src\<rparr>\<rparr>) m5;
            m7 = assign r (\<lambda>x. x\<lparr>properties := (properties x)\<lparr>icon := icon1\<rparr>\<rparr>) m6;
            m8 = assign r (\<lambda>x. x\<lparr>properties := (properties x)\<lparr>background_color := background_color0\<rparr>\<rparr>) m7;
            m9 = assign r (\<lambda>x. x\<lparr>properties := (properties x)\<lparr>text_color := text_color0\<rparr>\<rparr>) m8
        in (r, m9))"

text \<open>Lines 126 to 153, the part of \<open>message_response\<close> after the text is known.\<close>

definition build :: "sender_fn \<Rightarrow> source_props \<Rightarrow> component \<Rightarrow> text_value \<Rightarrow> world
    \<Rightarrow> (exn + ref) \<times> world" where
  "build send_message props self t w =
     (case prepare props self t (mem w) of (r, m9) \<Rightarrow>
        if component.session_id self \<noteq> [] \<and> should_store_message self
        then (case send_message r m9 of
                (Raises e, m10) \<Rightarrow> (Inl e, w\<lparr>mem := m10, sent := sent w @ [r]\<rparr>)
              | (Returns stored_message, m10) \<Rightarrow>
                  (Inr stored_message,
                   w\<lparr>mem := m10, sent := sent w @ [r], message_value := Some stored_message,
                     status := Some stored_message\<rparr>))
        else (Inr r, w\<lparr>mem := m9, status := Some r\<rparr>))"

definition message_response :: "converter \<Rightarrow> sender_fn \<Rightarrow> source_props \<Rightarrow> component \<Rightarrow> world
    \<Rightarrow> (exn + ref) \<times> world" where
  "message_response conv send_message props self w =
     (case convert_to_string conv (mem w) self of
        Inl e \<Rightarrow> (Inl e, w)
      | Inr t \<Rightarrow> build send_message props self t w)"

section \<open>Notions the properties are stated with\<close>

text \<open>A string without white space at either end.\<close>

definition trimmed :: "string \<Rightarrow> bool" where
  "trimmed s = (s = [] \<or> (\<not> is_space (hd s) \<and> \<not> is_space (last s)))"

text \<open>A value that the test of line 164 passes over.\<close>

definition skipped :: "pyval \<Rightarrow> bool" where
  "skipped v = (skip_test v = Returns True)"

text \<open>A value on which the test of line 164 returns.\<close>

definition testable :: "pyval \<Rightarrow> bool" where
  "testable v = (skip_test v = Returns True \<or> skip_test v = Returns False)"

text \<open>The line of a payload entry whose value has the text \<open>s\<close>.\<close>

definition entry_line :: "string \<Rightarrow> string \<Rightarrow> string" where
  "entry_line k s = k @ '': '' @ s"

text \<open>
  The text of a list as the specification words it: the conversions that are \<open>None\<close>
  or empty are left out, the others are stripped and joined with newline.
\<close>

definition claimed_list_text :: "converter \<Rightarrow> bool \<Rightarrow> input_value list \<Rightarrow> string" where
  "claimed_list_text conv c items =
     join nl (map strip (filter (\<lambda>p. p \<noteq> []) (List.map_filter (\<lambda>x. conv x c) items)))"

text \<open>
  The lines of the entries that are not skipped, in the order of the dict, \<open>txt\<close>
  giving the text of each value.
\<close>

definition rendered_lines :: "(pyval \<Rightarrow> string) \<Rightarrow> (string \<times> pyval) list \<Rightarrow> string list" where
  "rendered_lines txt kvs =
     map (\<lambda>(k, v). entry_line k (txt v)) (filter (\<lambda>(k, v). \<not> skipped v) kvs)"

text \<open>
  The preview of a handle: the first 5 rows as text, or \<open>str\<close> of the handle when that
  rendering raises.
\<close>

definition preview_text :: "handle \<Rightarrow> exn + text_value" where
  "preview_text h =
     (case head_to_string h 5 of
        Returns s \<Rightarrow> Inr (Text s)
      | Raises e \<Rightarrow> (case handle_str h of Returns s \<Rightarrow> Inr (Text s) | Raises e' \<Rightarrow> Inl e'))"

subsection \<open>Concrete values for the examples\<close>

text \<open>A converter that gives a string back as it is and \<open>None\<close> for anything else.\<close>

definition string_converter :: converter where
  "string_converter x c = (case x of IStr s \<Rightarrow> Some s | _ \<Rightarrow> None)"

text \<open>A component with the default options of the \<open>inputs\<close> list and the given input.\<close>

definition chat_output :: "input_value \<Rightarrow> component" where
  "chat_output inp = \<lparr>input_value = inp, should_store_message = True, sender = ''Machine'',
     sender_name = ''AI'', session_id = [], data_template = ''{text}'', background_color = [],
     chat_icon = [], text_color = [], clean_data = True, graph = None\<rparr>"

definition empty_memory :: memory where
  "empty_memory = \<lparr>heap = (\<lambda>r. new_Message NoText), next_ref = 0\<rparr>"

definition empty_world :: world where
  "empty_world = \<lparr>mem = empty_memory, sent = [], message_value = None, status = None\<rparr>"

text \<open>A store with one message at address 0.\<close>

definition one_message :: "message \<Rightarrow> memory" where
  "one_message x = \<lparr>heap = (\<lambda>r. if r = 0 then x else new_Message NoText), next_ref = 1\<rparr>"

text \<open>A \<open>send_message\<close> that stores a copy of the message and returns the copy.\<close>

definition copying_sender :: sender_fn where
  "copying_sender r m = (case alloc (heap m r) m of (r', m') \<Rightarrow> (Returns r', m'))"

text \<open>The text of a string value, for the examples whose values are strings.\<close>

fun str_text :: "pyval \<Rightarrow> string" where
  "str_text (PStr s) = s"
| "str_text v = []"

definition failing_sender :: sender_fn where
  "failing_sender r m = (Raises (OtherError ''database is locked''), m)"

text \<open>A record whose attribute \<open>data\<close> is the given dict and that has no attribute \<open>value\<close>.\<close>

definition record_of :: "(string \<times> pyval) list \<Rightarrow> data" where
  "record_of kvs = \<lparr>value_attr = None, data_attr = Dict kvs, data_str = Returns ''Data''\<rparr>"

text \<open>
  A dict that holds an object whose \<open>__repr__\<close> raises: both \<open>str\<close> and \<open>repr\<close> of the
  dict raise. A subclass of dict whose \<open>__str__\<close> raises: \<open>repr\<close> still works. An object
  of another class whose \<open>__str__\<close> raises.
\<close>

definition broken_dict :: pyval where
  "broken_dict = PObj \<lparr>eq_empty = Returns False, is_dict_or_list = True,
     obj_str = Raises (OtherError ''repr failed''), obj_repr = Raises (OtherError ''repr failed'')\<rparr>"

definition odd_dict :: pyval where
  "odd_dict = PObj \<lparr>eq_empty = Returns False, is_dict_or_list = True,
     obj_str = Raises (OtherError ''str failed''), obj_repr = Returns ''{1: 2}''\<rparr>"

definition broken_scalar :: pyval where
  "broken_scalar = PObj \<lparr>eq_empty = Returns False, is_dict_or_list = False,
     obj_str = Raises (OtherError ''str failed''), obj_repr = Returns ''<Thing>''\<rparr>"

text \<open>
  A numpy array of two numbers: \<open>v == ""\<close> gives an array, whose truth test raises
  \<open>ValueError\<close>. An object whose \<open>__str__\<close> returns a number: \<open>str\<close> raises \<open>TypeError\<close>.
\<close>

definition array_value :: pyval where
  "array_value = PObj \<lparr>eq_empty = Raises (ValueError ''The truth value of an array is ambiguous''),
     is_dict_or_list = False, obj_str = Returns ''[1 2]'', obj_repr = Returns ''array([1, 2])''\<rparr>"

definition bad_str_value :: pyval where
  "bad_str_value = PObj \<lparr>eq_empty = Returns False, is_dict_or_list = False,
     obj_str = Raises (TypeError ''__str__ returned non-string''), obj_repr = Returns ''<Thing>''\<rparr>"

text \<open>
  A handle with one row, and a frame without \<open>df\<close> whose \<open>value\<close> is that handle.
\<close>

definition sample_handle :: handle where
  "sample_handle = \<lparr>truthy = Returns True, head_to_string = (\<lambda>n. Returns ''   a\<newline>0  1''),
     handle_str = Returns ''   a\<newline>0  1''\<rparr>"

text \<open>
  A frame with a column named \<open>df\<close>: the attribute \<open>df\<close> is that column, a pandas
  Series, whose truth test raises \<open>ValueError\<close> and whose first rows render.
\<close>

definition series_handle :: handle where
  "series_handle = \<lparr>truthy = Raises (ValueError ''The truth value of a Series is ambiguous''),
     head_to_string = (\<lambda>n. Returns ''0    1''), handle_str = Returns ''0    1''\<rparr>"

definition df_column_frame :: dataframe where
  "df_column_frame = \<lparr>frame_df = Some series_handle, frame_value = None,
     frame_str = Returns ''   df\<newline>0   1''\<rparr>"

definition sample_frame :: dataframe where
  "sample_frame = \<lparr>frame_df = None, frame_value = Some sample_handle,
     frame_str = Returns ''Empty DataFrame''\<rparr>"

text \<open>The component of \<open>chat_output\<close> with a session id.\<close>

definition chat_output_in :: "string \<Rightarrow> input_value \<Rightarrow> component" where
  "chat_output_in sid inp = (chat_output inp)\<lparr>component.session_id := sid\<rparr>"

text \<open>What the source component of the examples reports: a model object and an icon.\<close>

definition sample_props :: source_props where
  "sample_props =
     (SrcObj True (Some ''granite'') None ''Model'', Some ''Bot'', Some ''Model'', Some ''m-1'')"

section \<open>Facts about the loops\<close>

lemma collect_parts_eq: "collect_parts conv c items acc = acc @ map (\<lambda>x. conv x c) items"
  by (induction items arbitrary: acc) simp_all

lemma stripped_parts_eq: "stripped_parts ps = map strip (List.map_filter id ps)"
  by (induction ps rule: stripped_parts.induct) (simp_all add: List.map_filter_simps)

lemma map_filter_map: "List.map_filter id (map f xs) = List.map_filter f xs"
  by (induction xs) (simp_all add: List.map_filter_simps split: option.splits)

lemma payload_lines_returns:
  "(\<forall>(k, v) \<in> set kvs. testable v \<and> (\<not> skipped v \<longrightarrow> stringify v = Returns (txt v))) \<Longrightarrow>
   payload_lines kvs acc = Returns (acc @ rendered_lines txt kvs)"
  by (induction kvs arbitrary: acc)
     (auto simp: skipped_def testable_def entry_line_def rendered_lines_def)

lemma payload_lines_raises:
  "(\<forall>(k, v) \<in> set pre. testable v \<and> (\<not> skipped v \<longrightarrow> stringify v = Returns (txt v))) \<Longrightarrow>
   skip_test v = Returns False \<Longrightarrow> stringify v = Raises e \<Longrightarrow>
   payload_lines (pre @ (k, v) # post) acc = Raises e"
  by (induction pre arbitrary: acc) (auto simp: skipped_def testable_def)

lemma payload_lines_test_raises:
  "(\<forall>(k, v) \<in> set pre. testable v \<and> (\<not> skipped v \<longrightarrow> stringify v = Returns (txt v))) \<Longrightarrow>
   skip_test v = Raises e \<Longrightarrow>
   payload_lines (pre @ (k, v) # post) acc = Raises e"
  by (induction pre arbitrary: acc) (auto simp: skipped_def testable_def)

lemma convert_data:
  "input_value self = IData d \<Longrightarrow> convert_to_string conv m self = lift_text (serialize_data d)"
  by (simp add: convert_to_string_def validate_input_def)

lemma serialize_payload:
  "\<forall>s. value_attr d \<noteq> Some (PStr s) \<Longrightarrow> data_attr d = Dict kvs \<Longrightarrow>
   serialize_data d =
     (case payload_lines kvs [] of
        Raises e \<Rightarrow> Inl e
      | Returns lines \<Rightarrow> Inr (if lines \<noteq> [] then strip (join nl lines) else []))"
  by (simp add: serialize_data_def split: option.splits pyval.splits)

lemma strip_prefix: "rev (dropWhile P (rev t)) @ rev (takeWhile P (rev t)) = t"
  by (metis rev_append rev_rev_ident takeWhile_dropWhile_id)

lemma trimmed_strip: "trimmed (strip s)"
proof -
  define t where "t = dropWhile is_space s"
  define u where "u = rev (dropWhile is_space (rev t))"
  have su: "strip s = u" by (simp add: strip_def t_def u_def)
  show ?thesis
  proof (cases "u = []")
    case True
    then show ?thesis by (simp add: su trimmed_def)
  next
    case False
    then have d: "dropWhile is_space (rev t) \<noteq> []" by (simp add: u_def)
    have l: "\<not> is_space (last u)"
      using d hd_dropWhile [OF d] by (simp add: u_def last_rev)
    have "t = u @ rev (takeWhile is_space (rev t))"
      unfolding u_def by (rule strip_prefix [symmetric])
    then have "hd t = hd u" using False by (metis hd_append2)
    moreover have "t \<noteq> []" using d by auto
    then have "\<not> is_space (hd t)" unfolding t_def by (rule hd_dropWhile)
    ultimately show ?thesis using l by (simp add: su trimmed_def)
  qed
qed

lemma valid_cases:
  "validate_input self =
     (case input_value self of
        INone \<Rightarrow> Inl (ValueError ''Input data cannot be None'')
      | IOther t \<Rightarrow> Inl (TypeError (''Expected Data, DataFrame, Message, str, list, Generator or None, got '' @ t))
      | _ \<Rightarrow> Inr ())"
  by (simp add: validate_input_def split: input_value.splits)

lemma prepare_template: "prepare props (self\<lparr>data_template := t\<rparr>) txt m = prepare props self txt m"
  by (simp add: prepare_def split: prod.splits cong: if_cong)

lemma build_template: "build send props (self\<lparr>data_template := t\<rparr>) txt w = build send props self txt w"
  by (simp add: build_def prepare_template)

lemma trimmed_empty: "trimmed []" by (simp add: trimmed_def)

lemma serialize_trimmed: "serialize_data d = Inr s \<Longrightarrow> trimmed s"
  by (auto simp: serialize_data_def trimmed_strip trimmed_empty
      split: option.splits pyval.splits payload.splits outcome.splits if_splits)

lemma message_text_trimmed: "message_text t = Inr s \<Longrightarrow> trimmed s"
  by (cases t) (auto simp: trimmed_strip)

lemma lift_text_Inr: "lift_text r = Inr v \<longleftrightarrow> (\<exists>s. r = Inr s \<and> v = Text s)"
  by (auto simp add: lift_text_def split: sum.splits)

lemma convert_frame:
  "input_value self = IDataFrame f \<Longrightarrow> convert_to_string conv m self = lift_text (render_frame f)"
  by (simp add: convert_to_string_def validate_input_def)

lemma render_handle:
  "or_else (frame_df f) (frame_value f) = Returns (Some h) \<Longrightarrow>
   lift_text (render_frame f) = preview_text h"
  by (simp add: render_frame_def preview_text_def head_default_def lift_text_def
      split: outcome.splits)

lemma assign_heap: "heap (assign r f m) = (heap m)(r := f (heap m r))"
  by (simp add: assign_def)

lemma assign_next: "next_ref (assign r f m) = next_ref m"
  by (simp add: assign_def)

lemma prepare_working:
  "fst (prepare props self t m) = fst (working_message (input_value self) t m)"
  by (simp add: prepare_def split: prod.splits)

lemma prepare_next:
  "next_ref (snd (prepare props self t m)) = next_ref (snd (working_message (input_value self) t m))"
  by (simp add: prepare_def assign_next split: prod.splits)

lemma prepare_other:
  "a \<noteq> fst (working_message (input_value self) t m) \<Longrightarrow>
   heap (snd (prepare props self t m)) a = heap (snd (working_message (input_value self) t m)) a"
  by (auto simp add: prepare_def assign_heap split: prod.splits)

lemma prepare_text:
  "msg_text (heap (snd (prepare props self t m)) (fst (working_message (input_value self) t m)))
   = msg_text (heap (snd (working_message (input_value self) t m)) (fst (working_message (input_value self) t m)))"
  by (auto simp add: prepare_def assign_heap split: prod.splits)

lemma prepare_other_fields:
  "other_fields (heap (snd (prepare props self t m)) (fst (working_message (input_value self) t m)))
   = other_fields (heap (snd (working_message (input_value self) t m)) (fst (working_message (input_value self) t m)))"
  by (auto simp add: prepare_def assign_heap split: prod.splits)

lemma build_stores:
  "component.session_id self \<noteq> [] \<and> should_store_message self \<Longrightarrow>
   build send props self t w =
     (case send (fst (prepare props self t (mem w))) (snd (prepare props self t (mem w))) of
        (Raises e, m10) \<Rightarrow>
          (Inl e, w\<lparr>mem := m10, sent := sent w @ [fst (prepare props self t (mem w))]\<rparr>)
      | (Returns stored_message, m10) \<Rightarrow>
          (Inr stored_message,
           w\<lparr>mem := m10, sent := sent w @ [fst (prepare props self t (mem w))],
             message_value := Some stored_message, status := Some stored_message\<rparr>))"
  by (auto simp add: build_def split: prod.splits outcome.splits)

lemma build_keeps:
  "\<not> (component.session_id self \<noteq> [] \<and> should_store_message self) \<Longrightarrow>
   build send props self t w =
     (Inr (fst (prepare props self t (mem w))),
      w\<lparr>mem := snd (prepare props self t (mem w)), status := Some (fst (prepare props self t (mem w)))\<rparr>)"
  by (auto simp add: build_def split: prod.splits)

lemma working_message_IMessage:
  "working_message (IMessage r) t m = (r, assign r (\<lambda>x. x\<lparr>msg_text := t\<rparr>) m)"
  by (simp add: working_message_def)

lemma fresh_entity:
  "\<forall>r. input_value self \<noteq> IMessage r \<Longrightarrow>
   fst (prepare props self t m) = next_ref m \<and> next_ref (snd (prepare props self t m)) = Suc (next_ref m)"
  by (cases "input_value self")
     (simp_all add: prepare_working prepare_next working_message_def alloc_def)

text \<open>An exception of \<open>send_message\<close> leaves \<open>message_response\<close>.\<close>

lemma send_failure_leaves:
  "component.session_id self \<noteq> [] \<and> should_store_message self \<Longrightarrow>
   fst (build failing_sender props self t w) = Inl (OtherError ''database is locked'')"
  by (simp add: build_stores failing_sender_def)

text \<open>The whole method on a message input, without a session: the input is the result.\<close>

lemma message_response_example:
  "fst (message_response string_converter copying_sender sample_props (chat_output (IMessage 0))
      \<lparr>mem = one_message (new_Message (Text '' hello '')), sent = [], message_value = None,
        status = None\<rparr>) = Inr 0"
  by (simp add: message_response_def convert_to_string_def validate_input_def chat_output_def
      one_message_def new_Message_def lift_text_def build_keeps prepare_working
      working_message_def)

section \<open>Lists\<close>

text \<open>
  C1, as the code has it. For a list input \<open>convert_to_string\<close> converts every element
  with \<open>safe_convert\<close> and the \<open>clean_data\<close> flag, leaves out exactly the elements whose
  conversion is \<open>None\<close>, strips each of the other conversions and joins them with
  newline in the order of the elements. A conversion that is the empty string stays in
  the result as an empty segment. The empty list gives the empty string.
\<close>

theorem list_text:
  "input_value self = IList items \<Longrightarrow>
   convert_to_string conv m self =
     Inr (Text (join nl (map strip (List.map_filter (\<lambda>x. conv x (clean_data self)) items))))
   \<and> (items = [] \<longrightarrow> convert_to_string conv m self = Inr (Text []))"
  by (auto simp add: convert_to_string_def validate_input_def collect_parts_eq stripped_parts_eq
      map_filter_map List.map_filter_simps)

text \<open>
  The list \<open>[" a", 5, "", "b "]\<close>: the integer converts to \<open>None\<close> and is left out, the
  empty string stays.
\<close>

theorem list_text_witness:
  "convert_to_string string_converter empty_memory
     (chat_output (IList [IStr '' a'', IOther ''int'', IStr [], IStr ''b '']))
   = Inr (Text ''a\<newline>\<newline>b'')"
proof -
  have h: "input_value (chat_output (IList [IStr '' a'', IOther ''int'', IStr [], IStr ''b '']))
    = IList [IStr '' a'', IOther ''int'', IStr [], IStr ''b '']"
    by (simp add: chat_output_def)
  from list_text [OF h, of string_converter empty_memory] show ?thesis
    by (simp add: chat_output_def string_converter_def List.map_filter_simps strip_def
        is_space_def nl_def)
qed

text \<open>
  C1 as the specification words it fails on \<open>["a", "", "b"]\<close>: the code gives three
  segments, the specification's wording two.
\<close>

theorem list_text_counterexample:
  "convert_to_string string_converter empty_memory (chat_output (IList [IStr ''a'', IStr [], IStr ''b'']))
     = Inr (Text ''a\<newline>\<newline>b'')
   \<and> claimed_list_text string_converter True [IStr ''a'', IStr [], IStr ''b''] = ''a\<newline>b''"
  by (simp add: convert_to_string_def validate_input_def chat_output_def string_converter_def
      claimed_list_text_def List.map_filter_simps strip_def is_space_def nl_def)

section \<open>Records\<close>

text \<open>
  C2, as the code has it. In a record that reaches the loop over the payload, a dict or
  list value that the test of line 164 does not pass over, whose \<open>str\<close> raises and whose
  \<open>repr\<close> returns, is rendered with the text of \<open>repr\<close>; when on every other entry the
  test of line 164 returns and the entry, if it is not passed over, renders,
  \<open>convert_to_string\<close> returns, and the result holds the lines of the entries before
  it, its own line with the \<open>repr\<close> text, and the lines of the entries after it.
\<close>

theorem entry_fallback:
  assumes "input_value self = IData d"
    and "\<forall>s. value_attr d \<noteq> Some (PStr s)"
    and "data_attr d = Dict (pre @ (k, PObj ob) # post)"
    and "eq_empty ob = Returns False"
    and "is_dict_or_list ob" and "obj_str ob = Raises e" and "obj_repr ob = Returns r"
    and "\<forall>(k', v) \<in> set (pre @ post).
           testable v \<and> (\<not> skipped v \<longrightarrow> stringify v = Returns (txt v))"
  shows "convert_to_string conv m self =
     Inr (Text (strip (join nl (rendered_lines txt pre @ [entry_line k r] @ rendered_lines txt post))))"
proof -
  define txt' where "txt' = (\<lambda>v. if v = PObj ob then r else txt v)"
  have ob: "stringify (PObj ob) = Returns r" using assms(5-7) by simp
  have nsk: "\<not> skipped (PObj ob)" "testable (PObj ob)"
    using assms(4) by (simp_all add: skipped_def testable_def)
  have all: "\<forall>(k', v) \<in> set (pre @ (k, PObj ob) # post).
      testable v \<and> (\<not> skipped v \<longrightarrow> stringify v = Returns (txt' v))"
    using assms(8) ob nsk by (auto simp: txt'_def)
  have same: "rendered_lines txt' xs = rendered_lines txt xs"
    if "\<forall>(k', v) \<in> set xs. testable v \<and> (\<not> skipped v \<longrightarrow> stringify v = Returns (txt v))" for xs
    using that ob by (auto simp: rendered_lines_def txt'_def)
  have "rendered_lines txt' (pre @ (k, PObj ob) # post)
      = rendered_lines txt' pre @ [entry_line k r] @ rendered_lines txt' post"
    using nsk by (simp add: rendered_lines_def txt'_def)
  also have "\<dots> = rendered_lines txt pre @ [entry_line k r] @ rendered_lines txt post"
    using assms(8) by (simp add: same)
  finally have ls: "payload_lines (pre @ (k, PObj ob) # post) []
      = Returns (rendered_lines txt pre @ [entry_line k r] @ rendered_lines txt post)"
    using payload_lines_returns [OF all, of "[]"] by simp
  show ?thesis
    by (simp add: convert_data [OF assms(1)] serialize_payload [OF assms(2,3)] ls lift_text_def)
qed

text \<open>The payload \<open>{"a": "x", "b": d, "c": "y"}\<close>, \<open>d\<close> a dict whose \<open>__str__\<close> raises.\<close>

theorem entry_fallback_witness:
  "convert_to_string string_converter empty_memory
     (chat_output (IData (record_of [(''a'', PStr ''x''), (''b'', odd_dict), (''c'', PStr ''y'')])))
   = Inr (Text ''a: x\<newline>b: {1: 2}\<newline>c: y'')"
proof -
  let ?ob = "\<lparr>eq_empty = Returns False, is_dict_or_list = True,
    obj_str = Raises (OtherError ''str failed''), obj_repr = Returns ''{1: 2}''\<rparr>"
  let ?d = "record_of [(''a'', PStr ''x''), (''b'', odd_dict), (''c'', PStr ''y'')]"
  have h1: "input_value (chat_output (IData ?d)) = IData ?d" by (simp add: chat_output_def)
  have h2: "\<forall>s. value_attr ?d \<noteq> Some (PStr s)" by (simp add: record_of_def)
  have h3: "data_attr ?d = Dict ([(''a'', PStr ''x'')] @ (''b'', PObj ?ob) # [(''c'', PStr ''y'')])"
    by (simp add: record_of_def odd_dict_def)
  have h4: "eq_empty ?ob = Returns False" by simp
  have h5: "is_dict_or_list ?ob" by simp
  have h6: "obj_str ?ob = Raises (OtherError ''str failed'')" by simp
  have h7: "obj_repr ?ob = Returns ''{1: 2}''" by simp
  have h8: "\<forall>(k', v) \<in> set ([(''a'', PStr ''x'')] @ [(''c'', PStr ''y'')]).
      testable v \<and> (\<not> skipped v \<longrightarrow> stringify v = Returns (str_text v))"
    by (simp add: testable_def)
  from entry_fallback [OF h1 h2 h3 h4 h5 h6 h7 h8, of string_converter empty_memory]
  show ?thesis
    by (simp add: rendered_lines_def entry_line_def skipped_def strip_def is_space_def nl_def)
qed

text \<open>
  C2 as the specification words it fails twice: on a dict whose \<open>str\<close> and \<open>repr\<close> both
  raise, and on a value that is no dict or list and whose \<open>str\<close> raises. In both the
  exception leaves \<open>convert_to_string\<close> and no entry is rendered.
\<close>

theorem entry_fallback_counterexample:
  "convert_to_string string_converter empty_memory
     (chat_output (IData (record_of [(''a'', PStr ''x''), (''b'', broken_dict), (''c'', PStr ''y'')])))
   = Inl (OtherError ''repr failed'')
   \<and> convert_to_string string_converter empty_memory
     (chat_output (IData (record_of [(''a'', PStr ''x''), (''b'', broken_scalar), (''c'', PStr ''y'')])))
   = Inl (OtherError ''str failed'')"
  by (simp add: convert_to_string_def validate_input_def chat_output_def record_of_def
      serialize_data_def lift_text_def broken_dict_def broken_scalar_def)

text \<open>
  C4. A record without a string in \<open>value\<close> and with the payload
  \<open>{"a": "x", "b": "", "c": None, "d": "y"}\<close> gives exactly the two lines \<open>a: x\<close> and
  \<open>d: y\<close>: the entries \<open>b\<close> and \<open>c\<close> are skipped, the others keep the order of the
  dict.
\<close>

theorem payload_example:
  "input_value self = IData d \<Longrightarrow> (\<forall>s. value_attr d \<noteq> Some (PStr s)) \<Longrightarrow>
   data_attr d = Dict [(''a'', PStr ''x''), (''b'', PStr ''''), (''c'', PNone), (''d'', PStr ''y'')] \<Longrightarrow>
   convert_to_string conv m self = Inr (Text ''a: x\<newline>d: y'')"
  by (simp add: convert_data serialize_payload lift_text_def strip_def nl_def is_space_def)

theorem payload_example_witness:
  "convert_to_string string_converter empty_memory
     (chat_output (IData (record_of [(''a'', PStr ''x''), (''b'', PStr ''''), (''c'', PNone), (''d'', PStr ''y'')])))
   = Inr (Text ''a: x\<newline>d: y'')"
proof -
  let ?d = "record_of [(''a'', PStr ''x''), (''b'', PStr ''''), (''c'', PNone), (''d'', PStr ''y'')]"
  have h1: "input_value (chat_output (IData ?d)) = IData ?d" by (simp add: chat_output_def)
  have h2: "\<forall>s. value_attr ?d \<noteq> Some (PStr s)" by (simp add: record_of_def)
  have h3: "data_attr ?d = Dict [(''a'', PStr ''x''), (''b'', PStr ''''), (''c'', PNone), (''d'', PStr ''y'')]"
    by (simp add: record_of_def)
  from payload_example [OF h1 h2 h3] show ?thesis .
qed

section \<open>Validation\<close>

text \<open>
  C3, as the code has it. \<open>convert_to_string\<close> raises the \<open>ValueError\<close> of line 184
  whenever the input is \<open>None\<close>, whatever the other fields of the component are, and the
  \<open>TypeError\<close> of line 188, whose message ends in the name of the input's class,
  whenever the input is of a class outside the tuple of line 186. \<open>_validate_input\<close>
  raises a \<open>ValueError\<close> exactly when the input is \<open>None\<close>, a \<open>TypeError\<close> exactly when
  the input is of a class outside the tuple, and never anything else; it returns for
  every other input. \<open>None\<close> never gets the \<open>TypeError\<close>.
\<close>

theorem validation_errors:
  "(input_value self = INone \<longrightarrow>
      convert_to_string conv m self = Inl (ValueError ''Input data cannot be None''))
   \<and> (\<forall>t. input_value self = IOther t \<longrightarrow>
        convert_to_string conv m self =
          Inl (TypeError (''Expected Data, DataFrame, Message, str, list, Generator or None, got '' @ t)))
   \<and> ((\<exists>msg. validate_input self = Inl (ValueError msg)) \<longleftrightarrow> input_value self = INone)
   \<and> ((\<exists>msg. validate_input self = Inl (TypeError msg)) \<longleftrightarrow> (\<exists>t. input_value self = IOther t))
   \<and> (validate_input self = Inr () \<longleftrightarrow> input_value self \<noteq> INone \<and> (\<forall>t. input_value self \<noteq> IOther t))
   \<and> (\<forall>e. validate_input self = Inl e \<longrightarrow> (\<exists>msg. e = ValueError msg \<or> e = TypeError msg))"
proof -
  have a: "input_value self = INone \<Longrightarrow>
      convert_to_string conv m self = Inl (ValueError ''Input data cannot be None'')"
    by (simp add: convert_to_string_def validate_input_def)
  have b: "input_value self = IOther t \<Longrightarrow> convert_to_string conv m self =
          Inl (TypeError (''Expected Data, DataFrame, Message, str, list, Generator or None, got '' @ t))" for t
    by (simp add: convert_to_string_def validate_input_def)
  have c: "(\<exists>msg. validate_input self = Inl (ValueError msg)) \<longleftrightarrow> input_value self = INone"
    by (simp add: valid_cases split: input_value.splits)
  have d: "(\<exists>msg. validate_input self = Inl (TypeError msg)) \<longleftrightarrow> (\<exists>t. input_value self = IOther t)"
    by (simp add: valid_cases split: input_value.splits)
  have e: "validate_input self = Inr () \<longleftrightarrow> input_value self \<noteq> INone \<and> (\<forall>t. input_value self \<noteq> IOther t)"
    by (simp add: valid_cases split: input_value.splits)
  have f: "\<forall>e. validate_input self = Inl e \<longrightarrow> (\<exists>msg. e = ValueError msg \<or> e = TypeError msg)"
    by (simp add: valid_cases split: input_value.splits)
  show ?thesis using a b c d e f by blast
qed

text \<open>The inputs \<open>None\<close> and \<open>5\<close>.\<close>

theorem validation_errors_witness:
  "convert_to_string string_converter empty_memory (chat_output INone)
     = Inl (ValueError ''Input data cannot be None'')
   \<and> convert_to_string string_converter empty_memory (chat_output (IOther ''int''))
     = Inl (TypeError ''Expected Data, DataFrame, Message, str, list, Generator or None, got int'')"
proof -
  have h1: "input_value (chat_output INone) = INone" by (simp add: chat_output_def)
  have h2: "input_value (chat_output (IOther ''int'')) = IOther ''int''" by (simp add: chat_output_def)
  from validation_errors [of "chat_output INone" string_converter empty_memory] h1
  have r1: "convert_to_string string_converter empty_memory (chat_output INone)
     = Inl (ValueError ''Input data cannot be None'')" by blast
  from validation_errors [of "chat_output (IOther ''int'')" string_converter empty_memory] h2
  have "convert_to_string string_converter empty_memory (chat_output (IOther ''int''))
     = Inl (TypeError (''Expected Data, DataFrame, Message, str, list, Generator or None, got '' @ ''int''))"
    by blast
  with r1 show ?thesis by simp
qed

text \<open>
  C3 as the specification words it fails in its "only when": a record is neither
  \<open>None\<close> nor of a class outside the tuple, and \<open>convert_to_string\<close> raises a
  \<open>ValueError\<close> on the record whose payload holds a numpy array (the comparison of
  line 164) and a \<open>TypeError\<close> on the record whose payload holds an object with a
  broken \<open>__str__\<close> (line 172).
\<close>

theorem validation_errors_counterexample:
  "input_value (chat_output (IData (record_of [(''a'', array_value)]))) \<noteq> INone
   \<and> convert_to_string string_converter empty_memory
       (chat_output (IData (record_of [(''a'', array_value)])))
     = Inl (ValueError ''The truth value of an array is ambiguous'')
   \<and> is_valid_type (input_value (chat_output (IData (record_of [(''a'', bad_str_value)]))))
   \<and> convert_to_string string_converter empty_memory
       (chat_output (IData (record_of [(''a'', bad_str_value)])))
     = Inl (TypeError ''__str__ returned non-string'')"
  by (simp add: convert_to_string_def validate_input_def chat_output_def record_of_def
      serialize_data_def lift_text_def array_value_def bad_str_value_def)

section \<open>The data template\<close>

text \<open>
  C8. The option \<open>data_template\<close> has no influence: two components that differ in it
  alone give the same result of \<open>convert_to_string\<close>, and of \<open>message_response\<close> as
  well.
\<close>

theorem template_inert:
  "convert_to_string conv m (self\<lparr>data_template := t\<rparr>) = convert_to_string conv m self
   \<and> message_response conv send props (self\<lparr>data_template := t\<rparr>) w
     = message_response conv send props self w"
proof -
  have a: "convert_to_string conv m (self\<lparr>data_template := t\<rparr>) = convert_to_string conv m self" for m
    by (simp add: convert_to_string_def validate_input_def split: input_value.splits)
  show ?thesis
    by (simp add: a message_response_def build_template split: sum.splits)
qed

theorem template_inert_witness:
  "convert_to_string string_converter empty_memory ((chat_output (IStr ''hi ''))\<lparr>data_template := ''{data}''\<rparr>)
   = convert_to_string string_converter empty_memory (chat_output (IStr ''hi ''))"
  using template_inert [where conv = string_converter and m = empty_memory
      and self = "chat_output (IStr ''hi '')" and t = "''{data}''"]
  by blast

section \<open>Trimmed results\<close>

text \<open>
  C9. For a string, a message and a record, whatever \<open>convert_to_string\<close> returns is
  a text without white space at either end. It does return for every string, for every
  message whose text is not a generator, and for every record on whose payload entries
  the test of line 164 returns and whose entries that are not passed over all render.
  A list and a frame can give a text that is not trimmed.
\<close>

theorem trimmed_output:
  "(\<forall>s. input_value self = IStr s \<longrightarrow>
      (\<exists>t. convert_to_string conv m self = Inr (Text t) \<and> trimmed t))
   \<and> (\<forall>r. input_value self = IMessage r \<longrightarrow>
      (\<forall>v. convert_to_string conv m self = Inr v \<longrightarrow> (\<exists>t. v = Text t \<and> trimmed t))
      \<and> ((\<forall>g. msg_text (heap m r) \<noteq> Stream g) \<longrightarrow> (\<exists>t. convert_to_string conv m self = Inr (Text t))))
   \<and> (\<forall>d. input_value self = IData d \<longrightarrow>
      (\<forall>v. convert_to_string conv m self = Inr v \<longrightarrow> (\<exists>t. v = Text t \<and> trimmed t))
      \<and> ((\<forall>kvs. data_attr d = Dict kvs \<longrightarrow>
             (\<forall>(k, v) \<in> set kvs. testable v \<and> (\<not> skipped v \<longrightarrow> (\<exists>t. stringify v = Returns t))))
           \<longrightarrow> (\<exists>t. convert_to_string conv m self = Inr (Text t))))
   \<and> (\<exists>conv' self' t. (\<exists>items. input_value self' = IList items)
         \<and> convert_to_string conv' m self' = Inr (Text t) \<and> \<not> trimmed t)
   \<and> (\<exists>self' t. (\<exists>f. input_value self' = IDataFrame f)
         \<and> convert_to_string conv m self' = Inr (Text t) \<and> \<not> trimmed t)"
proof -
  have a: "\<exists>t. convert_to_string conv m self = Inr (Text t) \<and> trimmed t"
    if "input_value self = IStr s" for s
    using that by (simp add: convert_to_string_def validate_input_def trimmed_strip)
  have b1: "\<exists>t. v = Text t \<and> trimmed t"
    if "input_value self = IMessage r" "convert_to_string conv m self = Inr v" for r v
    using that by (auto simp: convert_to_string_def validate_input_def lift_text_Inr
        dest: message_text_trimmed)
  have b2: "\<exists>t. convert_to_string conv m self = Inr (Text t)"
    if "input_value self = IMessage r" "\<forall>g. msg_text (heap m r) \<noteq> Stream g" for r
    using that by (cases "msg_text (heap m r)")
      (auto simp: convert_to_string_def validate_input_def lift_text_def)
  have c1: "\<exists>t. v = Text t \<and> trimmed t"
    if "input_value self = IData d" "convert_to_string conv m self = Inr v" for d v
    using that by (auto simp: convert_data lift_text_Inr dest: serialize_trimmed)
  have c2: "\<exists>t. convert_to_string conv m self = Inr (Text t)"
    if i: "input_value self = IData d"
      and r: "\<forall>kvs. data_attr d = Dict kvs \<longrightarrow>
        (\<forall>(k, v) \<in> set kvs. testable v \<and> (\<not> skipped v \<longrightarrow> (\<exists>t. stringify v = Returns t)))" for d
  proof -
    have "\<exists>s. serialize_data d = Inr s"
    proof (cases "data_attr d")
      case NotADict
      then show ?thesis
        by (auto simp: serialize_data_def split: option.splits pyval.splits outcome.splits)
    next
      case (Dict kvs)
      define tx where "tx = (\<lambda>v. case stringify v of Returns t \<Rightarrow> t | Raises e \<Rightarrow> [])"
      from r Dict have "\<forall>(k, v) \<in> set kvs. testable v \<and> (\<not> skipped v \<longrightarrow> stringify v = Returns (tx v))"
        by (fastforce simp: tx_def)
      from payload_lines_returns [OF this, of "[]"] Dict show ?thesis
        by (auto simp: serialize_data_def split: option.splits pyval.splits)
    qed
    then show ?thesis by (auto simp: convert_data [OF i] lift_text_def)
  qed
  have d: "\<exists>conv' self' t. (\<exists>items. input_value self' = IList items)
         \<and> convert_to_string conv' m self' = Inr (Text t) \<and> \<not> trimmed t"
  proof (intro exI conjI)
    show "input_value (chat_output (IList [IStr [], IStr ''a''])) = IList [IStr [], IStr ''a'']"
      by (simp add: chat_output_def)
    show "convert_to_string string_converter m (chat_output (IList [IStr [], IStr ''a'']))
      = Inr (Text ''\<newline>a'')"
      by (simp add: convert_to_string_def validate_input_def chat_output_def string_converter_def
          strip_def nl_def is_space_def)
    show "\<not> trimmed ''\<newline>a''" by (simp add: trimmed_def is_space_def)
  qed
  have e: "\<exists>self' t. (\<exists>f. input_value self' = IDataFrame f)
         \<and> convert_to_string conv m self' = Inr (Text t) \<and> \<not> trimmed t"
  proof (intro exI conjI)
    let ?f = "\<lparr>frame_df = None, frame_value = None, frame_str = Returns '' x''\<rparr>"
    show "input_value (chat_output (IDataFrame ?f)) = IDataFrame ?f"
      by (simp add: chat_output_def)
    show "convert_to_string conv m (chat_output (IDataFrame ?f)) = Inr (Text '' x'')"
      by (simp add: convert_to_string_def validate_input_def chat_output_def render_frame_def
          or_else_def lift_text_def)
    show "\<not> trimmed '' x''" by (simp add: trimmed_def is_space_def)
  qed
  show ?thesis using a b1 b2 c1 c2 d e by blast
qed

text \<open>
  A message with the text \<open>" hello "\<close>.
\<close>

theorem trimmed_output_witness:
  "convert_to_string string_converter (one_message (new_Message (Text '' hello '')))
     (chat_output (IMessage 0)) = Inr (Text ''hello'')
   \<and> trimmed ''hello''"
proof -
  let ?m = "one_message (new_Message (Text '' hello ''))"
  have h: "input_value (chat_output (IMessage 0)) = IMessage 0" by (simp add: chat_output_def)
  have r: "convert_to_string string_converter ?m (chat_output (IMessage 0)) = Inr (Text ''hello'')"
    by (simp add: convert_to_string_def validate_input_def chat_output_def one_message_def
        new_Message_def lift_text_def strip_def is_space_def)
  from trimmed_output [of "chat_output (IMessage 0)" string_converter ?m] h r
  have "\<exists>t. Text ''hello'' = Text t \<and> trimmed t" by blast
  with r show ?thesis by simp
qed

section \<open>Frames\<close>

text \<open>
  What the code does with a frame when the truth test of line 210 returns: the
  attribute \<open>df\<close> is the handle when it is there and true, the attribute \<open>value\<close>
  otherwise. With a handle the result is the text of its first 5 rows, or \<open>str\<close> of the
  handle when that rendering raises; without one it is \<open>str\<close> of the frame.
\<close>

lemma frame_text:
  assumes "input_value self = IDataFrame f"
  shows "(\<forall>h. frame_df f = Some h \<and> truthy h = Returns True \<longrightarrow>
        convert_to_string conv m self = preview_text h)
   \<and> (\<forall>h. (frame_df f = None \<or> (\<exists>h0. frame_df f = Some h0 \<and> truthy h0 = Returns False))
          \<and> frame_value f = Some h
        \<longrightarrow> convert_to_string conv m self = preview_text h)
   \<and> ((frame_df f = None \<or> (\<exists>h0. frame_df f = Some h0 \<and> truthy h0 = Returns False))
          \<and> frame_value f = None
        \<longrightarrow> convert_to_string conv m self =
           (case frame_str f of Returns s \<Rightarrow> Inr (Text s) | Raises e \<Rightarrow> Inl e))
   \<and> (\<forall>h s. head_to_string h 5 = Returns s \<longrightarrow> preview_text h = Inr (Text s))
   \<and> (\<forall>h e s. head_to_string h 5 = Raises e \<and> handle_str h = Returns s \<longrightarrow> preview_text h = Inr (Text s))"
proof -
  have a: "convert_to_string conv m self = preview_text h"
    if "frame_df f = Some h" "truthy h = Returns True" for h
    using that by (simp add: convert_frame [OF assms] render_handle or_else_def)
  have b: "convert_to_string conv m self = preview_text h"
    if "frame_df f = None \<or> (\<exists>h0. frame_df f = Some h0 \<and> truthy h0 = Returns False)"
      "frame_value f = Some h" for h
    using that by (auto simp add: convert_frame [OF assms] render_handle or_else_def)
  have c: "convert_to_string conv m self =
           (case frame_str f of Returns s \<Rightarrow> Inr (Text s) | Raises e \<Rightarrow> Inl e)"
    if "frame_df f = None \<or> (\<exists>h0. frame_df f = Some h0 \<and> truthy h0 = Returns False)"
      "frame_value f = None"
    using that by (auto simp add: convert_frame [OF assms] render_frame_def or_else_def lift_text_def
        split: outcome.splits)
  have d: "\<forall>h s. head_to_string h 5 = Returns s \<longrightarrow> preview_text h = Inr (Text s)"
    by (simp add: preview_text_def)
  have e: "\<forall>h e s. head_to_string h 5 = Raises e \<and> handle_str h = Returns s \<longrightarrow> preview_text h = Inr (Text s)"
    by (simp add: preview_text_def)
  show ?thesis using a b c d e by blast
qed

text \<open>
  C7 fails on the code. On a frame with a column named \<open>df\<close> the attribute \<open>df\<close> is a
  pandas Series, a handle whose first rows render; the \<open>or\<close> of line 210 asks it for
  its truth outside the \<open>try\<close> of line 212, the Series raises \<open>ValueError\<close>, and
  \<open>convert_to_string\<close> raises it instead of returning the preview.
\<close>

theorem frame_truth_raises:
  "frame_df df_column_frame = Some series_handle
   \<and> preview_text series_handle = Inr (Text ''0    1'')
   \<and> convert_to_string string_converter empty_memory (chat_output (IDataFrame df_column_frame))
     = Inl (ValueError ''The truth value of a Series is ambiguous'')"
  by (simp add: convert_to_string_def validate_input_def chat_output_def render_frame_def
      or_else_def lift_text_def df_column_frame_def series_handle_def preview_text_def)

section \<open>The source\<close>



section \<open>Storing the message\<close>

text \<open>
  C5. After the text is known, \<open>message_response\<close> calls \<open>send_message\<close> exactly when
  \<open>session_id\<close> is not empty and \<open>should_store_message\<close> is true. Then the call is
  made once, on the message it prepared; the message that \<open>send_message\<close> returns is
  the result and becomes \<open>self.message.value\<close> and \<open>self.status\<close>, and an exception of
  \<open>send_message\<close> leaves the method. Otherwise nothing is sent, the prepared message is
  the result, and the outcome is the same for every \<open>send_message\<close>.
\<close>

theorem persist_iff:
  "(component.session_id self \<noteq> [] \<and> should_store_message self \<longrightarrow>
      sent (snd (build send props self t w)) = sent w @ [fst (prepare props self t (mem w))]
      \<and> fst (build send props self t w)
          = propagate (fst (send (fst (prepare props self t (mem w))) (snd (prepare props self t (mem w)))))
      \<and> mem (snd (build send props self t w))
          = snd (send (fst (prepare props self t (mem w))) (snd (prepare props self t (mem w))))
      \<and> (\<forall>stored. fst (send (fst (prepare props self t (mem w))) (snd (prepare props self t (mem w))))
            = Returns stored \<longrightarrow>
          fst (build send props self t w) = Inr stored
          \<and> status (snd (build send props self t w)) = Some stored
          \<and> message_value (snd (build send props self t w)) = Some stored))
   \<and> (\<not> (component.session_id self \<noteq> [] \<and> should_store_message self) \<longrightarrow>
      sent (snd (build send props self t w)) = sent w
      \<and> fst (build send props self t w) = Inr (fst (prepare props self t (mem w)))
      \<and> mem (snd (build send props self t w)) = snd (prepare props self t (mem w))
      \<and> (\<forall>send'. build send' props self t w = build send props self t w))"
proof (intro conjI impI)
  assume c: "component.session_id self \<noteq> [] \<and> should_store_message self"
  show "sent (snd (build send props self t w)) = sent w @ [fst (prepare props self t (mem w))]"
    by (simp add: build_stores [OF c] split: prod.splits outcome.splits)
  show "fst (build send props self t w)
          = propagate (fst (send (fst (prepare props self t (mem w))) (snd (prepare props self t (mem w)))))"
    by (simp add: build_stores [OF c] split: prod.splits outcome.splits)
  show "mem (snd (build send props self t w))
          = snd (send (fst (prepare props self t (mem w))) (snd (prepare props self t (mem w))))"
    by (simp add: build_stores [OF c] split: prod.splits outcome.splits)
  show "\<forall>stored. fst (send (fst (prepare props self t (mem w))) (snd (prepare props self t (mem w))))
            = Returns stored \<longrightarrow>
          fst (build send props self t w) = Inr stored
          \<and> status (snd (build send props self t w)) = Some stored
          \<and> message_value (snd (build send props self t w)) = Some stored"
    by (simp add: build_stores [OF c] split: prod.splits outcome.splits)
next
  assume c: "\<not> (component.session_id self \<noteq> [] \<and> should_store_message self)"
  show "sent (snd (build send props self t w)) = sent w"
    by (simp add: build_keeps [OF c])
  show "fst (build send props self t w) = Inr (fst (prepare props self t (mem w)))"
    by (simp add: build_keeps [OF c])
  show "mem (snd (build send props self t w)) = snd (prepare props self t (mem w))"
    by (simp add: build_keeps [OF c])
  show "\<forall>send'. build send' props self t w = build send props self t w"
    by (simp add: build_keeps [OF c])
qed

text \<open>
  A string input, once with the session \<open>s1\<close> and once without a session, and a
  \<open>send_message\<close> that returns a copy: the copy at address 1 is the result in the first
  run, the prepared message at address 0 in the second.
\<close>

theorem persist_iff_witness:
  "fst (build copying_sender sample_props (chat_output_in ''s1'' (IStr ''hi'')) (Text ''hi'') empty_world)
     = Inr 1
   \<and> sent (snd (build copying_sender sample_props (chat_output_in ''s1'' (IStr ''hi'')) (Text ''hi'')
        empty_world)) = [0]
   \<and> fst (build copying_sender sample_props (chat_output (IStr ''hi'')) (Text ''hi'') empty_world)
     = Inr 0
   \<and> sent (snd (build copying_sender sample_props (chat_output (IStr ''hi'')) (Text ''hi'')
        empty_world)) = []"
proof -
  let ?s = "chat_output_in ''s1'' (IStr ''hi'')"
  let ?n = "chat_output (IStr ''hi'')"
  have c1: "component.session_id ?s \<noteq> [] \<and> should_store_message ?s"
    by (simp add: chat_output_in_def chat_output_def)
  have c2: "\<not> (component.session_id ?n \<noteq> [] \<and> should_store_message ?n)"
    by (simp add: chat_output_def)
  have i1: "\<forall>r. input_value ?s \<noteq> IMessage r" by (simp add: chat_output_in_def chat_output_def)
  have i2: "\<forall>r. input_value ?n \<noteq> IMessage r" by (simp add: chat_output_def)
  have p1: "fst (prepare sample_props ?s (Text ''hi'') empty_memory) = 0"
    and n1: "next_ref (snd (prepare sample_props ?s (Text ''hi'') empty_memory)) = 1"
    using fresh_entity [OF i1, of sample_props "Text ''hi''" empty_memory]
    by (simp_all add: empty_memory_def)
  have p2: "fst (prepare sample_props ?n (Text ''hi'') empty_memory) = 0"
    using fresh_entity [OF i2, of sample_props "Text ''hi''" empty_memory]
    by (simp add: empty_memory_def)
  have cs: "fst (copying_sender r m) = Returns (next_ref m)" for r m
    by (simp add: copying_sender_def alloc_def)
  from persist_iff [of ?s copying_sender sample_props "Text ''hi''" empty_world] c1
  have "fst (build copying_sender sample_props ?s (Text ''hi'') empty_world)
      = propagate (fst (copying_sender (fst (prepare sample_props ?s (Text ''hi'') (mem empty_world)))
          (snd (prepare sample_props ?s (Text ''hi'') (mem empty_world)))))"
    and "sent (snd (build copying_sender sample_props ?s (Text ''hi'') empty_world))
      = sent empty_world @ [fst (prepare sample_props ?s (Text ''hi'') (mem empty_world))]"
    by blast+
  then have a: "fst (build copying_sender sample_props ?s (Text ''hi'') empty_world) = Inr 1"
    and b: "sent (snd (build copying_sender sample_props ?s (Text ''hi'') empty_world)) = [0]"
    by (simp_all add: cs n1 p1 empty_world_def)
  from persist_iff [of ?n copying_sender sample_props "Text ''hi''" empty_world] c2
  have "fst (build copying_sender sample_props ?n (Text ''hi'') empty_world)
      = Inr (fst (prepare sample_props ?n (Text ''hi'') (mem empty_world)))"
    and "sent (snd (build copying_sender sample_props ?n (Text ''hi'') empty_world)) = sent empty_world"
    by blast+
  then have c: "fst (build copying_sender sample_props ?n (Text ''hi'') empty_world) = Inr 0"
    and d: "sent (snd (build copying_sender sample_props ?n (Text ''hi'') empty_world)) = []"
    by (simp_all add: p2 empty_world_def)
  from a b c d show ?thesis by simp
qed

section \<open>A message as input\<close>

text \<open>
  C6. When the input is a message, the message \<open>message_response\<close> works on is that
  very object: no new object is made, its text is overwritten with the new text, the
  fields that the code does not assign keep their values, and no other object of the
  store changes. That object is the result when nothing is stored, and it is the one
  handed to \<open>send_message\<close> otherwise.
\<close>

theorem message_reused:
  assumes "input_value self = IMessage r"
  shows "fst (prepare props self t m) = r
   \<and> next_ref (snd (prepare props self t m)) = next_ref m
   \<and> msg_text (heap (snd (prepare props self t m)) r) = t
   \<and> other_fields (heap (snd (prepare props self t m)) r) = other_fields (heap m r)
   \<and> (\<forall>a. a \<noteq> r \<longrightarrow> heap (snd (prepare props self t m)) a = heap m a)
   \<and> (\<not> (component.session_id self \<noteq> [] \<and> should_store_message self) \<longrightarrow>
        fst (build send props self t w) = Inr r
        \<and> mem (snd (build send props self t w)) = snd (prepare props self t (mem w)))
   \<and> (component.session_id self \<noteq> [] \<and> should_store_message self \<longrightarrow>
        sent (snd (build send props self t w)) = sent w @ [r])"
proof -
  have wm: "working_message (input_value self) t m = (r, assign r (\<lambda>x. x\<lparr>msg_text := t\<rparr>) m)" for m
    by (simp add: assms working_message_IMessage)
  have a: "fst (prepare props self t m) = r" for m by (simp add: prepare_working wm)
  have b: "next_ref (snd (prepare props self t m)) = next_ref m"
    by (simp add: prepare_next wm assign_next)
  have c: "msg_text (heap (snd (prepare props self t m)) r) = t"
    using prepare_text [of props self t m] by (simp add: wm assign_heap)
  have d: "other_fields (heap (snd (prepare props self t m)) r) = other_fields (heap m r)"
    using prepare_other_fields [of props self t m] by (simp add: wm assign_heap)
  have e: "heap (snd (prepare props self t m)) a = heap m a" if "a \<noteq> r" for a
    using that prepare_other [of a self t m props] by (simp add: wm assign_heap)
  have f: "fst (build send props self t w) = Inr r
        \<and> mem (snd (build send props self t w)) = snd (prepare props self t (mem w))"
    if "\<not> (component.session_id self \<noteq> [] \<and> should_store_message self)"
    by (simp add: build_keeps [OF that] a)
  have g: "sent (snd (build send props self t w)) = sent w @ [r]"
    if "component.session_id self \<noteq> [] \<and> should_store_message self"
    by (simp add: build_stores [OF that] a split: prod.splits outcome.splits)
  show ?thesis using a b c d e f g by blast
qed


text \<open>
  A store whose only message has the text \<open>" hello "\<close>.
\<close>

theorem message_reused_witness:
  "fst (prepare sample_props (chat_output (IMessage 0)) (Text ''hello'')
      (one_message (new_Message (Text '' hello '')))) = 0
   \<and> next_ref (snd (prepare sample_props (chat_output (IMessage 0)) (Text ''hello'')
      (one_message (new_Message (Text '' hello ''))))) = 1
   \<and> msg_text (heap (snd (prepare sample_props (chat_output (IMessage 0)) (Text ''hello'')
      (one_message (new_Message (Text '' hello ''))))) 0) = Text ''hello''"
proof -
  have h: "input_value (chat_output (IMessage 0)) = IMessage 0" by (simp add: chat_output_def)
  from message_reused [OF h, of sample_props "Text ''hello''" "one_message (new_Message (Text '' hello ''))"]
  show ?thesis by (simp add: one_message_def)
qed

end
